theory Spec2Isabelle
  imports Main
begin

section \<open>Strings: the standard-library calls of the fact extractor\<close>

text \<open>
  Go strings are byte sequences; \<^typ>\<open>string\<close> is a list of bytes as well. The
  functions below are the calls \<^verbatim>\<open>strings.Split\<close>, \<^verbatim>\<open>strings.HasPrefix\<close>,
  \<^verbatim>\<open>strings.Replace(s, old, new, -1)\<close> (the latter for a one-byte \<^verbatim>\<open>old\<close> and
  \<^verbatim>\<open>new\<close>) and \<^verbatim>\<open>strings.Join\<close> that \<^verbatim>\<open>extractDeprecatedMessage\<close> makes, itself
  or through \<^verbatim>\<open>doc.Text()\<close>.
\<close>

definition HasPrefix :: "string \<Rightarrow> string \<Rightarrow> bool" where
  "HasPrefix s pre = (take (length pre) s = pre)"

text \<open>
  \<^verbatim>\<open>strings.Split(s, sep)\<close> cuts at the leftmost occurrence of \<^verbatim>\<open>sep\<close>, then goes on
  behind it; the result always has at least one element (the empty string gives one
  empty part). The source only calls it with a separator of two bytes; with an empty
  separator Go explodes the string into its characters, written here per byte.
\<close>

function Split :: "string \<Rightarrow> string \<Rightarrow> string list" where
  "Split s sep =
     (if sep = [] then map (\<lambda>c. [c]) s
      else if s = [] then [[]]
      else if HasPrefix s sep then [] # Split (drop (length sep) s) sep
      else (case Split (tl s) sep of
              [] \<Rightarrow> [[hd s]]
            | p # ps \<Rightarrow> (hd s # p) # ps))"
  by pat_completeness auto
termination
  by (relation "measure (\<lambda>(s, sep). length s)") (auto simp: HasPrefix_def)

definition ReplaceAll1 :: "string \<Rightarrow> char \<Rightarrow> char \<Rightarrow> string" where
  "ReplaceAll1 s old new = map (\<lambda>c. if c = old then new else c) s"

definition nl :: char where
  "nl = CHR 0x0A"

fun Join :: "string list \<Rightarrow> string \<Rightarrow> string" where
  "Join [] sep = []"
| "Join [x] sep = x"
| "Join (x # y # ys) sep = x @ sep @ Join (y # ys) sep"

section \<open>The text of a comment group (go/ast)\<close>

text \<open>
  An \<^verbatim>\<open>*ast.CommentGroup\<close> is the list of its comments, each given by what
  \<^verbatim>\<open>CommentGroup.Text\<close> keeps of it when it removes the comment markers: the bytes
  behind \<^verbatim>\<open>//\<close> and the blank that follows it, or between \<^verbatim>\<open>/*\<close> and \<^verbatim>\<open>*/\<close>. The
  comments that \<^verbatim>\<open>Text\<close> leaves out (directives such as \<^verbatim>\<open>//go:generate\<close>) are not in
  the list. A nil pointer is \<^const>\<open>None\<close>.

  \<^verbatim>\<open>Text\<close> belongs to the standard library. From the comments it goes on as follows:
  every comment is split into lines and every line loses its trailing white space;
  blank lines at the start are dropped and a run of blank lines becomes one; the lines
  are joined by newlines, with a final newline behind the last line that is not blank.
  So the text the extractor sees ends in a newline unless it is empty, and none of its
  lines ends in a blank.
\<close>

type_synonym CommentGroup = "string list"

definition isWhitespace :: "char \<Rightarrow> bool" where
  "isWhitespace ch = (ch = CHR '' '' \<or> ch = CHR 0x09 \<or> ch = nl \<or> ch = CHR 0x0D)"

definition stripTrailingWhitespace :: "string \<Rightarrow> string" where
  "stripTrailingWhitespace s = rev (dropWhile isWhitespace (rev s))"

text \<open>
  The loop of \<^verbatim>\<open>Text\<close> that keeps a line when it is not blank or when the line kept
  last is not blank; \<open>prev\<close> is the line kept last, \<^const>\<open>None\<close> when none was kept yet.
\<close>

fun keepLines :: "string option \<Rightarrow> string list \<Rightarrow> string list" where
  "keepLines prev [] = []"
| "keepLines prev (line # lines) =
     (if line \<noteq> [] \<or> (prev \<noteq> None \<and> prev \<noteq> Some [])
      then line # keepLines (Some line) lines
      else keepLines prev lines)"

definition Text :: "CommentGroup \<Rightarrow> string" where
  "Text g =
     (let lines = concat (map (\<lambda>c. map stripTrailingWhitespace (Split c [nl])) g);
          kept = keepLines None lines;
          kept' = (if kept \<noteq> [] \<and> last kept \<noteq> [] then kept @ [[]] else kept)
      in Join kept' [nl])"

section \<open>The data model\<close>

text \<open>
  A \<^verbatim>\<open>*types.Package\<close> is its address and its path, a \<^verbatim>\<open>types.Object\<close> its address
  and the package \<^verbatim>\<open>obj.Pkg()\<close> returns (nil for the objects of the universe); two
  pointers are equal when the values are. The syntax tree arrives already resolved: where
  the source asks \<^verbatim>\<open>pass.TypesInfo.ObjectOf\<close> for the object of a declaring identifier
  or of the selected identifier of a member access, the node carries that object. Go's
  \<^verbatim>\<open>int\<close> is \<^typ>\<open>int\<close>: the source compares versions and counts the depth of the walk,
  and no input makes either overflow.
\<close>

datatype package = Package (pkg_addr: nat) (Path: string)

datatype object = Object (obj_addr: nat) (obj_Pkg: "package option")

datatype IsDeprecated = IsDeprecated (Msg: string)

record DeprecatedResult =
  Objects :: "object \<rightharpoonup> IsDeprecated"
  Packages :: "package \<rightharpoonup> IsDeprecated"

datatype Token = tok_IMPORT | tok_CONST | tok_TYPE | tok_VAR

datatype Field = Field (field_Names: "object list") (field_Doc: "CommentGroup option")

text \<open>
  The operand \<^verbatim>\<open>expr.X\<close> of a member access, as far as \<^verbatim>\<open>SelectorName\<close> looks at it:
  an identifier with its name and, when the identifier resolves to a
  \<^verbatim>\<open>*types.PkgName\<close>, the path of the imported package; or any other expression.
\<close>

datatype operand = XIdent string "string option" | XOther

record SelectorExpr =
  sel_Pos :: nat
  sel_Render :: string
  sel_Obj :: object
  sel_Name :: string
  sel_X :: operand
  sel_Selection :: "(string \<times> string) option"

text \<open>
  An import declaration: its position, the file name of \<^verbatim>\<open>spec.Path.Pos()\<close>, the
  literal \<^verbatim>\<open>spec.Path.Value\<close> as written in the source (quotes included), and the
  package of the \<^verbatim>\<open>*types.PkgName\<close> the type checker recorded for it (\<^const>\<open>None\<close>
  when there is none, where the type assertion of the source panics).
\<close>

record ImportSpec =
  imp_Pos :: nat
  imp_Filename :: string
  imp_Path_Value :: string
  imp_Imported :: "package option"

text \<open>
  The nodes of the syntax tree, as far as the two analyzers tell them apart, each with
  the fields the source reads: the token and doc comment of a \<^verbatim>\<open>GenDecl\<close>, the doc
  comment and the name of a \<^verbatim>\<open>FuncDecl\<close>, \<^verbatim>\<open>TypeSpec\<close> or \<^verbatim>\<open>ValueSpec\<close>, the field
  list of a \<^verbatim>\<open>StructType\<close> or \<^verbatim>\<open>InterfaceType\<close>, the position and name of an
  \<^verbatim>\<open>Ident\<close>. The children are those \<^verbatim>\<open>ast.Walk\<close> visits, in its order.
\<close>

datatype kind =
    File
  | GenDecl Token "CommentGroup option"
  | FuncDecl "CommentGroup option" object
  | TypeSpec "CommentGroup option" object
  | ValueSpec "CommentGroup option" "object list"
  | StructType "Field list"
  | InterfaceType "Field list"
  | SelectorExprN SelectorExpr
  | ImportSpecN ImportSpec
  | Ident nat string
  | OtherNode

datatype node = Node kind "node list"

datatype ast_File = AstFile (file_Doc: "CommentGroup option") (file_Decls: "node list")

definition fileNode :: "ast_File \<Rightarrow> node" where
  "fileNode f = Node File (file_Decls f)"

text \<open>
  Modelled from the spec: \<^verbatim>\<open>facts.Generator\<close> and \<^verbatim>\<open>facts.ProtocGenGo\<close> are declared in
  a file of the repository that is not among the sources. The spec describes a per-file
  tag naming the code generator that produced the file, with the protocol-buffer
  compiler as the one relevant value.
\<close>

datatype Generator = ProtocGenGo | OtherGenerator nat

text \<open>
  The package \<^verbatim>\<open>knowledge\<close> is an external library: its two sentinel constants and its
  table are parameters of the model.
\<close>

record Deprecation =
  DeprecatedSince :: int
  AlternativeAvailableSince :: int

record knowledge =
  DeprecatedNeverUse :: int
  DeprecatedUseNoLonger :: int
  StdlibDeprecations :: "string \<rightharpoonup> Deprecation"

text \<open>
  What the two analyzers read of an \<^verbatim>\<open>*analysis.Pass\<close>: the files and the package;
  the facts of the dependencies that the pass holds when the extractor starts; the
  results of the required analyzers \<^verbatim>\<open>facts.Deprecated\<close> and \<^verbatim>\<open>facts.Generated\<close>; and the
  value of the analyzer's flag \<^verbatim>\<open>go\<close>, the target version, when there is such a flag.
\<close>

record Pass =
  Files :: "ast_File list"
  pass_Pkg :: package
  ObjectFacts :: "object \<rightharpoonup> IsDeprecated"
  PackageFacts :: "package \<rightharpoonup> IsDeprecated"
  ResultOf_Deprecated :: DeprecatedResult
  ResultOf_Generated :: "string \<rightharpoonup> Generator"
  Flag_go :: "int option"

record Diagnostic =
  diag_Pos :: nat
  diag_Message :: string

datatype panic =
    NoVersionFlag
  | UnhandledCase int
  | UnsupportedSelector
  | SliceBounds
  | NilPkgName

datatype error = Panic panic | ErrSyntax

section \<open>The fact extractor (facts/deprecated.go)\<close>

text \<open>
  The inner loop of \<^verbatim>\<open>extractDeprecatedMessage\<close> over the paragraphs of one comment
  group: \<^const>\<open>Some\<close> is the \<^verbatim>\<open>return alt\<close> of the source, \<^const>\<open>None\<close> the end of the
  loop.
\<close>

fun firstDeprecated :: "string list \<Rightarrow> string option" where
  "firstDeprecated [] = None"
| "firstDeprecated (part # parts) =
     (if \<not> HasPrefix part ''Deprecated: '' then firstDeprecated parts
      else Some (ReplaceAll1 (drop (length ''Deprecated: '') part) nl (CHR '' '')))"

fun extractDeprecatedMessage :: "CommentGroup option list \<Rightarrow> string" where
  "extractDeprecatedMessage [] = ''''"
| "extractDeprecatedMessage (None # ds) = extractDeprecatedMessage ds"
| "extractDeprecatedMessage (Some doc # ds) =
     (case firstDeprecated (Split (Text doc) [nl, nl]) of
        Some alt \<Rightarrow> alt
      | None \<Rightarrow> extractDeprecatedMessage ds)"

text \<open>
  The state of the closures of \<^verbatim>\<open>deprecated\<close>: the two variables \<^verbatim>\<open>names\<close> and
  \<^verbatim>\<open>docs\<close>, and the object facts exported so far.
\<close>

record extractor =
  names :: "object list"
  docs :: "CommentGroup option list"
  facts :: "object \<rightharpoonup> IsDeprecated"

text \<open>
  The loop of \<^verbatim>\<open>doDocs\<close> over the names: \<^verbatim>\<open>pass.ExportObjectFact\<close> stores the fact
  for the object and replaces an earlier one.
\<close>

definition ExportObjectFacts ::
  "object list \<Rightarrow> string \<Rightarrow> (object \<rightharpoonup> IsDeprecated) \<Rightarrow> (object \<rightharpoonup> IsDeprecated)" where
  "ExportObjectFacts ns alt m = foldl (\<lambda>m name. m(name \<mapsto> IsDeprecated alt)) m ns"

definition doDocs :: "object list \<Rightarrow> CommentGroup option list \<Rightarrow> extractor \<Rightarrow> extractor" where
  "doDocs ns ds st =
     (let alt = extractDeprecatedMessage ds
      in if alt = '''' then st
         else st\<lparr>facts := ExportObjectFacts ns alt (facts st)\<rparr>)"

definition doFields :: "Field list \<Rightarrow> extractor \<Rightarrow> extractor" where
  "doFields fs st =
     foldl (\<lambda>st field. doDocs (field_Names field) [field_Doc field] st) st fs"

text \<open>The tail of the closure \<^verbatim>\<open>fn\<close>, reached by the three cases that set \<^verbatim>\<open>ret\<close>.\<close>

definition finish :: "extractor \<Rightarrow> bool \<Rightarrow> extractor \<times> bool" where
  "finish st ret =
     (if length (names st) = 0 \<or> length (docs st) = 0 then (st, ret)
      else ((doDocs (names st) (docs st) st)\<lparr>docs := [], names := []\<rparr>, ret))"

fun fn_facts :: "kind \<Rightarrow> extractor \<Rightarrow> extractor \<times> bool" where
  "fn_facts (GenDecl tok doc) st =
     (if tok = tok_TYPE \<or> tok = tok_CONST \<or> tok = tok_VAR
      then (st\<lparr>docs := docs st @ [doc]\<rparr>, True)
      else (st, False))"
| "fn_facts (FuncDecl doc name) st =
     finish (st\<lparr>docs := docs st @ [doc], names := [name]\<rparr>) False"
| "fn_facts (TypeSpec doc name) st =
     finish (st\<lparr>docs := docs st @ [doc], names := [name]\<rparr>) True"
| "fn_facts (ValueSpec doc ns) st =
     finish (st\<lparr>docs := docs st @ [doc], names := ns\<rparr>) False"
| "fn_facts File st = (st, True)"
| "fn_facts (StructType fs) st = (doFields fs st, False)"
| "fn_facts (InterfaceType methods) st = (doFields methods st, False)"
| "fn_facts (SelectorExprN v) st = (st, False)"
| "fn_facts (ImportSpecN v) st = (st, False)"
| "fn_facts (Ident pos name) st = (st, False)"
| "fn_facts OtherNode st = (st, False)"

text \<open>
  \<^verbatim>\<open>ast.Inspect(f, fn)\<close>: \<^verbatim>\<open>fn\<close> on the node, then, when it returned true, on the
  children in order (the closing call \<^verbatim>\<open>fn(nil)\<close> does nothing here).
\<close>

fun Inspect :: "node \<Rightarrow> extractor \<Rightarrow> extractor"
  and InspectList :: "node list \<Rightarrow> extractor \<Rightarrow> extractor" where
  "Inspect (Node k children) st =
     (case fn_facts k st of
        (st', descend) \<Rightarrow> if descend then InspectList children st' else st')"
| "InspectList [] st = st"
| "InspectList (n # ns) st = InspectList ns (Inspect n st)"

text \<open>
  \<^verbatim>\<open>deprecated\<close>: the package fact from the doc comments of the files, then the walk
  over every file with one state for all of them, then the result built from all the
  facts of the pass. It returns \<^verbatim>\<open>out, nil\<close> on its only path.
\<close>

definition deprecated :: "Pass \<Rightarrow> DeprecatedResult" where
  "deprecated pass =
     (let alt = extractDeprecatedMessage (map file_Doc (Files pass));
          pkgFacts = (if alt \<noteq> ''''
                      then (PackageFacts pass)(pass_Pkg pass \<mapsto> IsDeprecated alt)
                      else PackageFacts pass);
          st = foldl (\<lambda>st f. Inspect (fileNode f) st)
                 \<lparr>names = [], docs = [], facts = ObjectFacts pass\<rparr> (Files pass)
      in \<lparr>Objects = facts st, Packages = pkgFacts\<rparr>)"

section \<open>The usage analyzer (package protomigrate)\<close>

text \<open>\<^verbatim>\<open>%d\<close> of \<^verbatim>\<open>fmt.Sprintf\<close>: the decimal digits of an integer.\<close>

fun digits :: "nat \<Rightarrow> string" where
  "digits n =
     (if n < 10 then [char_of (48 + n)]
      else digits (n div 10) @ [char_of (48 + n mod 10)])"

definition Itoa :: "int \<Rightarrow> string" where
  "Itoa i = (if i < 0 then CHR ''-'' # digits (nat (- i)) else digits (nat i))"

text \<open>
  The state of the closure \<^verbatim>\<open>fn\<close> of \<^verbatim>\<open>checkDeprecated\<close>: the variables \<^verbatim>\<open>tfn\<close> and
  \<^verbatim>\<open>stack\<close>, and the diagnostics reported to the pass so far.
\<close>

record walker =
  tfn :: "object option"
  stack :: int
  diags :: "Diagnostic list"

definition Report :: "nat \<Rightarrow> string \<Rightarrow> walker \<Rightarrow> walker" where
  "Report pos msg s = s\<lparr>diags := diags s @ [\<lparr>diag_Pos = pos, diag_Message = msg\<rparr>]\<rparr>"

text \<open>
  \<^verbatim>\<open>IsGoVersion\<close> reads the flag \<^verbatim>\<open>go\<close> of the analyzer and panics when there is none
  (or when its value is not an integer): \<^const>\<open>Flag_go\<close> is \<^const>\<open>None\<close> then.
\<close>

definition IsGoVersion :: "Pass \<Rightarrow> int \<Rightarrow> error + bool" where
  "IsGoVersion pass minor =
     (case Flag_go pass of
        None \<Rightarrow> Inl (Panic NoVersionFlag)
      | Some version \<Rightarrow> Inr (version \<ge> minor))"

definition SelectorName :: "SelectorExpr \<Rightarrow> error + string" where
  "SelectorName expr =
     (case sel_Selection expr of
        None \<Rightarrow>
          (case sel_X expr of
             XIdent xname imported \<Rightarrow>
               (case imported of
                  None \<Rightarrow> Inr (xname @ ''.'' @ sel_Name expr)
                | Some path \<Rightarrow> Inr (path @ ''.'' @ sel_Name expr))
           | XOther \<Rightarrow> Inl (Panic UnsupportedSelector))
      | Some (recv, oname) \<Rightarrow> Inr (''('' @ recv @ '').'' @ oname))"

text \<open>
  The \<^verbatim>\<open>switch\<close> on \<^verbatim>\<open>std.AlternativeAvailableSince\<close>: \<^term>\<open>Inr False\<close> is the
  \<^verbatim>\<open>return true\<close> that leaves the closure without a report, \<^term>\<open>Inr True\<close> falls out
  of the switch.
\<close>

definition versionSwitch :: "knowledge \<Rightarrow> Pass \<Rightarrow> Deprecation \<Rightarrow> error + bool" where
  "versionSwitch K pass std =
     (if AlternativeAvailableSince std = DeprecatedNeverUse K then Inr True
      else if AlternativeAvailableSince std = DeprecatedUseNoLonger K
        then IsGoVersion pass (DeprecatedSince std)
      else if AlternativeAvailableSince std < 0
        then Inl (Panic (UnhandledCase (AlternativeAvailableSince std)))
      else IsGoVersion pass (AlternativeAvailableSince std))"

definition deprecationMessage ::
  "knowledge \<Rightarrow> SelectorExpr \<Rightarrow> Deprecation option \<Rightarrow> IsDeprecated \<Rightarrow> string" where
  "deprecationMessage K sel stdo depr =
     (case stdo of
        Some std \<Rightarrow>
          (if AlternativeAvailableSince std = DeprecatedNeverUse K
           then sel_Render sel @ '' has been deprecated since Go 1.'' @ Itoa (DeprecatedSince std)
                  @ '' because it shouldn'' @ [CHR 0x27] @ ''t be used: '' @ Msg depr
           else if AlternativeAvailableSince std = DeprecatedSince std
                   \<or> AlternativeAvailableSince std = DeprecatedUseNoLonger K
           then sel_Render sel @ '' has been deprecated since Go 1.'' @ Itoa (DeprecatedSince std)
                  @ '': '' @ Msg depr
           else sel_Render sel @ '' has been deprecated since Go 1.'' @ Itoa (DeprecatedSince std)
                  @ '' and an alternative has been available since Go 1.''
                  @ Itoa (AlternativeAvailableSince std) @ '': '' @ Msg depr)
      | None \<Rightarrow> sel_Render sel @ '' is deprecated: '' @ Msg depr)"

text \<open>
  The part of \<^verbatim>\<open>fn\<close> that handles a member access. Every exit of it is a
  \<^verbatim>\<open>return true\<close>, so the result is the state alone.
\<close>

definition checkSelector :: "knowledge \<Rightarrow> Pass \<Rightarrow> SelectorExpr \<Rightarrow> walker \<Rightarrow> error + walker" where
  "checkSelector K pass sel s =
     (let obj = sel_Obj sel in
      case obj_Pkg obj of
        None \<Rightarrow> Inr s
      | Some opkg \<Rightarrow>
          if pass_Pkg pass = opkg \<or> Path opkg @ ''_test'' = Path (pass_Pkg pass) then Inr s
          else
            (case Objects (ResultOf_Deprecated pass) obj of
               None \<Rightarrow> Inr s
             | Some depr \<Rightarrow>
                 (case SelectorName sel of
                    Inl e \<Rightarrow> Inl e
                  | Inr name \<Rightarrow>
                      (let stdo = StdlibDeprecations K name in
                       case (case stdo of None \<Rightarrow> Inr True
                                        | Some std \<Rightarrow> versionSwitch K pass std) of
                         Inl e \<Rightarrow> Inl e
                       | Inr False \<Rightarrow> Inr s
                       | Inr True \<Rightarrow>
                           (case (case stdo of
                                    None \<Rightarrow> Inr True
                                  | Some std \<Rightarrow> IsGoVersion pass (AlternativeAvailableSince std)) of
                              Inl e \<Rightarrow> Inl e
                            | Inr False \<Rightarrow> Inr s
                            | Inr True \<Rightarrow>
                                if (case tfn s of
                                      None \<Rightarrow> False
                                    | Some f \<Rightarrow> Objects (ResultOf_Deprecated pass) f \<noteq> None)
                                then Inr s
                                else Inr (Report (sel_Pos sel)
                                            (deprecationMessage K sel stdo depr) s))))))"

definition fn :: "knowledge \<Rightarrow> Pass \<Rightarrow> kind \<Rightarrow> bool \<Rightarrow> walker \<Rightarrow> error + walker \<times> bool" where
  "fn K pass n push s =
     (if \<not> push then Inr (s\<lparr>stack := stack s - 1\<rparr>, False)
      else
        (let s1 = s\<lparr>stack := stack s + 1\<rparr>;
             s2 = (if stack s1 = 1 then s1\<lparr>tfn := None\<rparr> else s1);
             s3 = (case n of FuncDecl doc name \<Rightarrow> s2\<lparr>tfn := Some name\<rparr> | _ \<Rightarrow> s2)
         in case n of
              SelectorExprN sel \<Rightarrow>
                (case checkSelector K pass sel s3 of
                   Inl e \<Rightarrow> Inl e
                 | Inr s4 \<Rightarrow> Inr (s4, True))
            | _ \<Rightarrow> Inr (s3, True)))"

text \<open>
  \<^verbatim>\<open>Inspector.Nodes(nil, fn)\<close>: every node of every file in depth-first order,
  \<^verbatim>\<open>fn(n, true)\<close> before the children of \<^verbatim>\<open>n\<close> and, when that call returned true,
  the children and then \<^verbatim>\<open>fn(n, false)\<close>, whose result is ignored.
\<close>

fun Nodes :: "knowledge \<Rightarrow> Pass \<Rightarrow> node \<Rightarrow> walker \<Rightarrow> error + walker"
  and NodesList :: "knowledge \<Rightarrow> Pass \<Rightarrow> node list \<Rightarrow> walker \<Rightarrow> error + walker" where
  "Nodes K pass (Node k children) s =
     (case fn K pass k True s of
        Inl e \<Rightarrow> Inl e
      | Inr (s1, proceed) \<Rightarrow>
          if \<not> proceed then Inr s1
          else
            (case NodesList K pass children s1 of
               Inl e \<Rightarrow> Inl e
             | Inr s2 \<Rightarrow>
                 (case fn K pass k False s2 of
                    Inl e \<Rightarrow> Inl e
                  | Inr (s3, r) \<Rightarrow> Inr s3)))"
| "NodesList K pass [] s = Inr s"
| "NodesList K pass (n # ns) s =
     (case Nodes K pass n s of
        Inl e \<Rightarrow> Inl e
      | Inr s1 \<Rightarrow> NodesList K pass ns s1)"

text \<open>The nodes of a tree in the order \<^verbatim>\<open>Inspector.Preorder\<close> visits them.\<close>

fun preorder :: "node \<Rightarrow> kind list"
  and preorderList :: "node list \<Rightarrow> kind list" where
  "preorder (Node k children) = k # preorderList children"
| "preorderList [] = []"
| "preorderList (n # ns) = preorder n @ preorderList ns"

fun importSpecs :: "kind list \<Rightarrow> ImportSpec list" where
  "importSpecs [] = []"
| "importSpecs (ImportSpecN spec # ks) = spec # importSpecs ks"
| "importSpecs (k # ks) = importSpecs ks"

text \<open>\<^verbatim>\<open>Generator\<close>: the classification of the file of a position, when it has one.\<close>

definition Generator :: "Pass \<Rightarrow> string \<Rightarrow> Generator option" where
  "Generator pass file = ResultOf_Generated pass file"

definition fn2 :: "Pass \<Rightarrow> ImportSpec \<Rightarrow> walker \<Rightarrow> error + walker" where
  "fn2 pass spec s =
     (case imp_Imported spec of
        None \<Rightarrow> Inl (Panic NilPkgName)
      | Some imp \<Rightarrow>
          (let p = imp_Path_Value spec in
           if length p < 2 then Inl (Panic SliceBounds)
           else
             (let path = take (length p - 2) (drop 1 p) in
              case Packages (ResultOf_Deprecated pass) imp of
                None \<Rightarrow> Inr s
              | Some depr \<Rightarrow>
                  if path = ''github.com/golang/protobuf/proto''
                     \<and> Generator pass (imp_Filename spec) = Some ProtocGenGo
                  then Inr s
                  else Inr (Report (imp_Pos spec)
                              (''package '' @ path @ '' is deprecated: '' @ Msg depr) s))))"

fun fn2List :: "Pass \<Rightarrow> ImportSpec list \<Rightarrow> walker \<Rightarrow> error + walker" where
  "fn2List pass [] s = Inr s"
| "fn2List pass (spec # specs) s =
     (case fn2 pass spec s of
        Inl e \<Rightarrow> Inl e
      | Inr s1 \<Rightarrow> fn2List pass specs s1)"

text \<open>
  \<^verbatim>\<open>checkDeprecated\<close> returns \<^verbatim>\<open>nil, nil\<close> on every path; what it hands to the driver
  are the diagnostics reported to the pass, which are the result here. A panic of the
  source is \<^const>\<open>Inl\<close>.
\<close>

definition checkDeprecated :: "knowledge \<Rightarrow> Pass \<Rightarrow> error + Diagnostic list" where
  "checkDeprecated K pass =
     (case NodesList K pass (map fileNode (Files pass)) \<lparr>tfn = None, stack = 0, diags = []\<rparr> of
        Inl e \<Rightarrow> Inl e
      | Inr s \<Rightarrow>
          (case fn2List pass (importSpecs (preorderList (map fileNode (Files pass)))) s of
             Inl e \<Rightarrow> Inl e
           | Inr s1 \<Rightarrow> Inr (diags s1)))"




section \<open>Notions used to state the properties\<close>

text \<open>
  A text in which no blank stands before a newline or at the end, and a line without a
  newline that does not end in a blank: what \<^const>\<open>Text\<close> makes of every comment.
\<close>

fun tidy :: "string \<Rightarrow> bool" where
  "tidy [] = True"
| "tidy [c] = (c \<noteq> CHR '' '')"
| "tidy (c # d # r) = ((c = CHR '' '' \<longrightarrow> d \<noteq> nl) \<and> tidy (d # r))"

definition cleanLine :: "string \<Rightarrow> bool" where
  "cleanLine l = (nl \<notin> set l \<and> (l \<noteq> [] \<longrightarrow> last l \<noteq> CHR '' ''))"

text \<open>
  Every fact of a state of the extractor either carries a non-empty message or was
  already there before the run (\<open>m0\<close> are the facts of the dependencies).
\<close>

definition recorded :: "(object \<rightharpoonup> IsDeprecated) \<Rightarrow> extractor \<Rightarrow> bool" where
  "recorded m0 st = (\<forall>x d. facts st x = Some d \<longrightarrow> Msg d \<noteq> [] \<or> m0 x = Some d)"

text \<open>
  The children of a declaration that the extractor passes over: expressions, identifiers,
  comments.
\<close>

fun inert :: "node \<Rightarrow> bool" where
  "inert (Node (SelectorExprN sel) cs) = True"
| "inert (Node (ImportSpecN spec) cs) = True"
| "inert (Node (Ident pos name) cs) = True"
| "inert (Node OtherNode cs) = True"
| "inert (Node k cs) = False"

text \<open>
  The specs of a grouped declaration as the parser builds them: a value spec binds at
  least one name, and the children of a type spec are its name and its type, none of
  them a declaration or a spec.
\<close>

fun typeChild :: "node \<Rightarrow> bool" where
  "typeChild (Node (GenDecl tok doc) cs) = False"
| "typeChild (Node (FuncDecl doc name) cs) = False"
| "typeChild (Node (TypeSpec doc name) cs) = False"
| "typeChild (Node (ValueSpec doc ns) cs) = False"
| "typeChild (Node File cs) = False"
| "typeChild (Node k cs) = True"

fun isSpec :: "node \<Rightarrow> bool" where
  "isSpec (Node (ValueSpec doc ns) cs) = (ns \<noteq> [])"
| "isSpec (Node (TypeSpec doc name) cs) = list_all typeChild cs"
| "isSpec (Node k cs) = False"

fun specNames :: "node \<Rightarrow> object set" where
  "specNames (Node (ValueSpec doc ns) cs) = set ns"
| "specNames (Node (TypeSpec doc name) cs) = {name}"
| "specNames (Node k cs) = {}"

text \<open>
  The declarations of all the files of a pass, in the order of the walk, and the objects
  that a subtree can bind a fact to: the names of its function declarations and specs
  and of the fields of its struct and interface types.
\<close>

definition allDecls :: "Pass \<Rightarrow> node list" where
  "allDecls pass = concat (map file_Decls (Files pass))"







text \<open>
  What claim C10 says happens to every spec of a group after the first: the spec is
  checked against its own doc comment alone, and the buffers are cleared.
\<close>

fun ownDocOnly :: "node \<Rightarrow> extractor \<Rightarrow> extractor" where
  "ownDocOnly (Node (ValueSpec doc ns) cs) st = (doDocs ns [doc] st)\<lparr>docs := [], names := []\<rparr>"
| "ownDocOnly (Node (TypeSpec doc name) cs) st =
     InspectList cs ((doDocs [name] [doc] st)\<lparr>docs := [], names := []\<rparr>)"
| "ownDocOnly (Node k cs) st = st"

text \<open>Two states of the extractor that differ at most in the facts of the objects in \<open>A\<close>.\<close>

definition agree :: "object set \<Rightarrow> extractor \<Rightarrow> extractor \<Rightarrow> bool" where
  "agree A st st' =
     (docs st = docs st' \<and> names st = names st' \<and> (\<forall>x. x \<notin> A \<longrightarrow> facts st x = facts st' x))"

text \<open>
  The diagnostics \<^const>\<open>checkSelector\<close> reports for a member access when the enclosing
  function is \<open>tf\<close>; a member access is eligible when it is reported outside of every
  function.
\<close>

definition selectorReports ::
  "knowledge \<Rightarrow> Pass \<Rightarrow> object option \<Rightarrow> SelectorExpr \<Rightarrow> error + Diagnostic list" where
  "selectorReports K pass tf sel =
     (case checkSelector K pass sel \<lparr>tfn = tf, stack = 0, diags = []\<rparr> of
        Inl e \<Rightarrow> Inl e
      | Inr s \<Rightarrow> Inr (diags s))"

definition eligibility :: "knowledge \<Rightarrow> Pass \<Rightarrow> SelectorExpr \<Rightarrow> error + bool" where
  "eligibility K pass sel =
     (case selectorReports K pass None sel of
        Inl e \<Rightarrow> Inl e
      | Inr ds \<Rightarrow> Inr (ds \<noteq> []))"














section \<open>Example inputs\<close>

text \<open>
  A package \<^verbatim>\<open>example.com/a\<close> under analysis, a dependency \<^verbatim>\<open>example.com/dep\<close> with
  four deprecated symbols, and the legacy protocol-buffer package.
\<close>

definition pkgA :: package where "pkgA = Package 1 ''example.com/a''"
definition pkgDep :: package where "pkgDep = Package 2 ''example.com/dep''"
definition pkgProto :: package where "pkgProto = Package 3 ''github.com/golang/protobuf/proto''"
definition pkgDepTest :: package where "pkgDepTest = Package 4 ''example.com/dep_test''"

definition fnOld :: object where "fnOld = Object 10 (Some pkgA)"
definition fnNew :: object where "fnNew = Object 11 (Some pkgA)"
definition varX :: object where "varX = Object 12 (Some pkgA)"
definition symPlain :: object where "symPlain = Object 20 (Some pkgDep)"
definition symNever :: object where "symNever = Object 21 (Some pkgDep)"
definition symNoLonger :: object where "symNoLonger = Object 22 (Some pkgDep)"
definition symSince :: object where "symSince = Object 23 (Some pkgDep)"
definition typT :: object where "typT = Object 30 (Some pkgA)"
definition fldA :: object where "fldA = Object 31 (Some pkgA)"
definition fldB :: object where "fldB = Object 32 (Some pkgA)"
definition varA :: object where "varA = Object 33 (Some pkgA)"
definition varB :: object where "varB = Object 34 (Some pkgA)"
definition fnFoo :: object where "fnFoo = Object 35 (Some pkgA)"

text \<open>The member access \<^verbatim>\<open>dep.nm\<close> at position \<open>pos\<close>, resolved to \<open>obj\<close>.\<close>

definition depSel :: "nat \<Rightarrow> object \<Rightarrow> string \<Rightarrow> SelectorExpr" where
  "depSel pos obj nm =
     \<lparr>sel_Pos = pos, sel_Render = ''dep.'' @ nm, sel_Obj = obj, sel_Name = nm,
      sel_X = XIdent ''dep'' (Some ''example.com/dep''), sel_Selection = None\<rparr>"

definition K0 :: knowledge where
  "K0 = \<lparr>DeprecatedNeverUse = - 1, DeprecatedUseNoLonger = - 2,
         StdlibDeprecations =
           [''example.com/dep.Never'' \<mapsto> \<lparr>DeprecatedSince = 5, AlternativeAvailableSince = - 1\<rparr>,
            ''example.com/dep.NoLonger'' \<mapsto> \<lparr>DeprecatedSince = 4, AlternativeAvailableSince = - 2\<rparr>,
            ''example.com/dep.Since'' \<mapsto> \<lparr>DeprecatedSince = 6, AlternativeAvailableSince = 3\<rparr>]\<rparr>"

definition depFacts :: "object \<rightharpoonup> IsDeprecated" where
  "depFacts = [symPlain \<mapsto> IsDeprecated ''use Other.'', symNever \<mapsto> IsDeprecated ''unsafe.'',
               symNoLonger \<mapsto> IsDeprecated ''no use.'', symSince \<mapsto> IsDeprecated ''use Newer.'']"

definition depPackageFacts :: "package \<rightharpoonup> IsDeprecated" where
  "depPackageFacts = [pkgProto \<mapsto> IsDeprecated ''use google.golang.org/protobuf.'',
                      pkgDep \<mapsto> IsDeprecated ''use dep2.'']"

text \<open>
  The pass for the files \<open>files\<close> of \<^verbatim>\<open>example.com/a\<close> with the version flag \<open>v\<close>;
  \<open>withFacts\<close> runs the fact extractor first, as the driver does for an analyzer that
  requires it.
\<close>

definition exPass :: "ast_File list \<Rightarrow> int option \<Rightarrow> Pass" where
  "exPass files v =
     \<lparr>Files = files, pass_Pkg = pkgA, ObjectFacts = depFacts, PackageFacts = depPackageFacts,
      ResultOf_Deprecated = \<lparr>Objects = Map.empty, Packages = Map.empty\<rparr>,
      ResultOf_Generated = [''a.pb.go'' \<mapsto> ProtocGenGo], Flag_go = v\<rparr>"

definition withFacts :: "Pass \<Rightarrow> Pass" where
  "withFacts pass = pass\<lparr>ResultOf_Deprecated := deprecated pass\<rparr>"

text \<open>
  \<^verbatim>\<open>// Deprecated: use New.\<close> \<^verbatim>\<open>func Old() {}\<close> and \<^verbatim>\<open>var X = dep.Sym\<close>, in the two
  orders.
\<close>

definition declOld :: node where
  "declOld = Node (FuncDecl (Some [''Deprecated: use New.'']) fnOld) []"

definition declVarX :: node where
  "declVarX = Node (GenDecl tok_VAR None)
                [Node (ValueSpec None [varX]) [Node (SelectorExprN (depSel 100 symPlain ''Sym'')) []]]"

definition fileAfter :: ast_File where
  "fileAfter = AstFile None [declOld, declVarX]"

definition fileBefore :: ast_File where
  "fileBefore = AstFile None [declVarX, declOld]"


text \<open>
  \<^verbatim>\<open>// Deprecated: \<close> \<^verbatim>\<open>//\<close> \<^verbatim>\<open>// Deprecated: later.\<close> \<^verbatim>\<open>func Old() {}\<close>: the first
  paragraph of the doc comment is the marker with nothing behind it.
\<close>

definition fileMarkerAlone :: ast_File where
  "fileMarkerAlone =
     AstFile None [Node (FuncDecl (Some [''Deprecated: '', '''', ''Deprecated: later.'']) fnOld) []]"












text \<open>
  \<^verbatim>\<open>// T is a type.\<close> \<^verbatim>\<open>type T struct { A int; B int }\<close> with the doc comment
  \<^verbatim>\<open>// Deprecated: use B.\<close> on the field \<^verbatim>\<open>A\<close>; the file with that declaration alone,
  and the file in which \<^verbatim>\<open>// Deprecated: gone.\<close> \<^verbatim>\<open>var ()\<close> stands before it.
\<close>

definition structFields :: "Field list" where
  "structFields = [Field [fldA] (Some [''Deprecated: use B.'']), Field [fldB] None]"

definition declT :: node where
  "declT =
     Node (GenDecl tok_TYPE (Some [''T is a type.'']))
       [Node OtherNode [],
        Node (TypeSpec None typT) [Node (Ident 5 ''T'') [], Node (StructType structFields) []]]"

definition declEmptyVar :: node where
  "declEmptyVar = Node (GenDecl tok_VAR (Some [''Deprecated: gone.''])) [Node OtherNode []]"

definition fileStruct :: ast_File where
  "fileStruct = AstFile None [declT]"

definition fileStructAfterEmpty :: ast_File where
  "fileStructAfterEmpty = AstFile None [declEmptyVar, declT]"

definition st0 :: extractor where
  "st0 = \<lparr>names = [], docs = [], facts = Map.empty\<rparr>"

definition w1 :: walker where
  "w1 = \<lparr>tfn = None, stack = 1, diags = []\<rparr>"

section \<open>Properties of the fact extractor\<close>

subsection \<open>The text of a comment group\<close>

declare Split.simps [simp del]

lemma Split_nonempty: "sep \<noteq> [] \<Longrightarrow> Split s sep \<noteq> []"
  by (induction s sep rule: Split.induct) (subst Split.simps, auto split: list.splits)

lemma Split_hd_Nil:
  "sep \<noteq> [] \<Longrightarrow> hd (Split s sep) = [] \<Longrightarrow> s = [] \<or> HasPrefix s sep"
  by (subst (asm) Split.simps) (auto split: if_splits list.splits)

lemma tidy_tl: "tidy s \<Longrightarrow> tidy (tl s)"
  by (induction s rule: tidy.induct) auto

lemma tidy_drop: "tidy s \<Longrightarrow> tidy (drop n s)"
proof (induction n arbitrary: s)
  case 0
  then show ?case by simp
next
  case (Suc n)
  have "drop (Suc n) s = drop n (tl s)" by (cases s) auto
  then show ?case using Suc tidy_tl by simp
qed

lemma Split_last_not_blank:
  "tidy s \<Longrightarrow> p \<in> set (Split s [nl, nl]) \<Longrightarrow> p \<noteq> [] \<Longrightarrow> last p \<noteq> CHR '' ''"
proof (induction s "[nl, nl]" arbitrary: p rule: Split.induct)
  case (1 s)
  show ?case
  proof (cases "s = []")
    case True
    with "1.prems" show ?thesis by (simp add: Split.simps)
  next
    case ne: False
    show ?thesis
    proof (cases "HasPrefix s [nl, nl]")
      case True
      from ne True have "Split s [nl, nl] = [] # Split (drop (length [nl, nl]) s) [nl, nl]"
        by (subst Split.simps) simp
      with "1.prems" have m: "p \<in> set (Split (drop (length [nl, nl]) s) [nl, nl])" by simp
      have "tidy (drop (length [nl, nl]) s)" using "1.prems"(1) by (rule tidy_drop)
      from "1.hyps"(1) [OF _ ne True this m "1.prems"(3)] show ?thesis by simp
    next
      case False
      obtain q qs where q: "Split (tl s) [nl, nl] = q # qs"
        using Split_nonempty [of "[nl, nl]" "tl s"] by (cases "Split (tl s) [nl, nl]") auto
      with ne False have e: "Split s [nl, nl] = (hd s # q) # qs"
        by (subst Split.simps) simp
      have tt: "tidy (tl s)" using "1.prems"(1) by (rule tidy_tl)
      note IH = "1.hyps"(2) [OF _ ne False tt]
      from "1.prems"(2) e have "p = hd s # q \<or> p \<in> set qs" by simp
      then show ?thesis
      proof
        assume "p \<in> set qs"
        then have "p \<in> set (Split (tl s) [nl, nl])" using q by simp
        from IH [OF _ this "1.prems"(3)] show ?thesis by simp
      next
        assume p: "p = hd s # q"
        show ?thesis
        proof (cases "q = []")
          case False
          have "q \<in> set (Split (tl s) [nl, nl])" using q by simp
          from IH [OF _ this False] show ?thesis using p False by simp
        next
          case True
          then have "hd (Split (tl s) [nl, nl]) = []" using q by simp
          then have "tl s = [] \<or> HasPrefix (tl s) [nl, nl]"
            using Split_hd_Nil [of "[nl, nl]" "tl s"] by simp
          then have "hd s \<noteq> CHR '' ''"
          proof
            assume "tl s = []"
            with ne obtain c where "s = [c]" by (cases s) auto
            with "1.prems"(1) show ?thesis by simp
          next
            assume "HasPrefix (tl s) [nl, nl]"
            then obtain c r where "s = c # nl # r"
              using ne by (cases s; cases "tl s") (auto simp: HasPrefix_def)
            with "1.prems"(1) show ?thesis by auto
          qed
          then show ?thesis using p True by simp
        qed
      qed
    qed
  qed
qed


lemma Split_single_no_sep: "p \<in> set (Split s [x]) \<Longrightarrow> x \<notin> set p"
proof (induction s "[x]" arbitrary: p rule: Split.induct)
  case (1 s)
  show ?case
  proof (cases "s = []")
    case True
    with "1.prems" show ?thesis by (simp add: Split.simps)
  next
    case ne: False
    show ?thesis
    proof (cases "HasPrefix s [x]")
      case True
      from ne True have "Split s [x] = [] # Split (drop (length [x]) s) [x]"
        by (subst Split.simps) simp
      with "1.prems" have "p = [] \<or> p \<in> set (Split (drop (length [x]) s) [x])" by simp
      then show ?thesis using "1.hyps"(1) [OF _ ne True] by auto
    next
      case False
      obtain q qs where q: "Split (tl s) [x] = q # qs"
        using Split_nonempty [of "[x]" "tl s"] by (cases "Split (tl s) [x]") auto
      with ne False have e: "Split s [x] = (hd s # q) # qs"
        by (subst Split.simps) simp
      from False ne have h: "hd s \<noteq> x" by (cases s) (auto simp: HasPrefix_def)
      have "x \<notin> set q" using "1.hyps"(2) [OF _ ne False, of q] q by simp
      moreover have "\<And>r. r \<in> set qs \<Longrightarrow> x \<notin> set r"
        using "1.hyps"(2) [OF _ ne False] q by simp
      ultimately show ?thesis using "1.prems" e h by auto
    qed
  qed
qed

lemma strip_clean: "nl \<notin> set l \<Longrightarrow> cleanLine (stripTrailingWhitespace l)"
proof -
  assume a: "nl \<notin> set l"
  have "set (dropWhile isWhitespace (rev l)) \<subseteq> set (rev l)" by (rule set_dropWhileD [THEN subsetI])
  then have 1: "nl \<notin> set (stripTrailingWhitespace l)"
    using a by (auto simp: stripTrailingWhitespace_def)
  have 2: "stripTrailingWhitespace l \<noteq> [] \<longrightarrow> last (stripTrailingWhitespace l) \<noteq> CHR '' ''"
  proof
    assume "stripTrailingWhitespace l \<noteq> []"
    then have ne: "dropWhile isWhitespace (rev l) \<noteq> []" by (simp add: stripTrailingWhitespace_def)
    then have "\<not> isWhitespace (hd (dropWhile isWhitespace (rev l)))" by (rule hd_dropWhile)
    moreover have "last (stripTrailingWhitespace l) = hd (dropWhile isWhitespace (rev l))"
      using ne by (simp add: stripTrailingWhitespace_def last_rev)
    ultimately show "last (stripTrailingWhitespace l) \<noteq> CHR '' ''"
      by (auto simp: isWhitespace_def)
  qed
  show ?thesis using 1 2 by (simp add: cleanLine_def)
qed

lemma keepLines_subset: "set (keepLines prev ls) \<subseteq> set ls"
  by (induction ls arbitrary: prev) auto

lemma tidy_line: "cleanLine l \<Longrightarrow> tidy l"
proof (induction l)
  case Nil
  then show ?case by simp
next
  case (Cons c l)
  then show ?case
    by (cases l) (auto simp: cleanLine_def)
qed

lemma tidy_line_nl: "cleanLine l \<Longrightarrow> tidy r \<Longrightarrow> tidy (l @ nl # r)"
proof (induction l)
  case Nil
  then show ?case by (cases r) (auto simp: nl_def)
next
  case (Cons c l)
  then show ?case
    by (cases l) (auto simp: cleanLine_def)
qed

lemma tidy_Join: "\<forall>l\<in>set ls. cleanLine l \<Longrightarrow> tidy (Join ls [nl])"
proof (induction ls "[nl]" rule: Join.induct)
  case 1
  then show ?case by simp
next
  case (2 x)
  then show ?case by (simp add: tidy_line)
next
  case (3 x y ys)
  then show ?case by (simp add: tidy_line_nl)
qed

lemma tidy_Text: "tidy (Text g)"
proof -
  let ?lines = "concat (map (\<lambda>c. map stripTrailingWhitespace (Split c [nl])) g)"
  have l: "\<forall>l\<in>set ?lines. cleanLine l"
    by (auto intro: strip_clean dest: Split_single_no_sep)
  then have k: "\<forall>l\<in>set (keepLines None ?lines). cleanLine l"
    using keepLines_subset by blast
  have e: "cleanLine []" by (simp add: cleanLine_def)
  show ?thesis
    unfolding Text_def Let_def using k e by (auto intro!: tidy_Join)
qed

lemma Text_paragraph_not_marker:
  "part \<in> set (Split (Text g) [nl, nl]) \<Longrightarrow> HasPrefix part ''Deprecated: '' \<Longrightarrow>
   drop (length ''Deprecated: '') part \<noteq> []"
proof
  assume p: "part \<in> set (Split (Text g) [nl, nl])" and h: "HasPrefix part ''Deprecated: ''"
    and d: "drop (length ''Deprecated: '') part = []"
  from h d have e: "part = ''Deprecated: ''"
    by (simp add: HasPrefix_def)
  from Split_last_not_blank [OF tidy_Text p] e show False by simp
qed

subsection \<open>Extraction of the marker\<close>

lemma firstDeprecated_None:
  "(firstDeprecated ps = None) = (\<forall>p\<in>set ps. \<not> HasPrefix p ''Deprecated: '')"
  by (induction ps) auto



lemma firstDeprecated_nonempty: "firstDeprecated (Split (Text g) [nl, nl]) \<noteq> Some []"
proof
  assume a: "firstDeprecated (Split (Text g) [nl, nl]) = Some []"
  have "\<And>ps. firstDeprecated ps = Some [] \<Longrightarrow>
          \<exists>part\<in>set ps. HasPrefix part ''Deprecated: '' \<and> drop (length ''Deprecated: '') part = []"
  proof -
    fix ps show "firstDeprecated ps = Some [] \<Longrightarrow>
          \<exists>part\<in>set ps. HasPrefix part ''Deprecated: '' \<and> drop (length ''Deprecated: '') part = []"
      by (induction ps) (auto simp: ReplaceAll1_def split: if_splits)
  qed
  from this [OF a] Text_paragraph_not_marker show False by blast
qed

lemma extract_empty:
  "extractDeprecatedMessage ds = [] \<Longrightarrow> Some doc \<in> set ds \<Longrightarrow>
   firstDeprecated (Split (Text doc) [nl, nl]) = None"
proof (induction ds rule: extractDeprecatedMessage.induct)
  case 1
  then show ?case by simp
next
  case (2 ds)
  then show ?case by simp
next
  case (3 d ds)
  then show ?case
    using firstDeprecated_nonempty [of d] by (auto split: option.splits)
qed

subsection \<open>Recorded facts\<close>

lemma ExportObjectFacts_apply:
  "ExportObjectFacts ns alt m x = (if x \<in> set ns then Some (IsDeprecated alt) else m x)"
  unfolding ExportObjectFacts_def
  by (induction ns arbitrary: m) auto

lemma doDocs_facts:
  "facts (doDocs ns ds st) x =
     (if extractDeprecatedMessage ds \<noteq> [] \<and> x \<in> set ns
      then Some (IsDeprecated (extractDeprecatedMessage ds)) else facts st x)"
  by (simp add: doDocs_def Let_def ExportObjectFacts_apply)

lemma doDocs_names [simp]: "names (doDocs ns ds st) = names st"
  by (simp add: doDocs_def Let_def)

lemma doDocs_docs [simp]: "docs (doDocs ns ds st) = docs st"
  by (simp add: doDocs_def Let_def)

lemma doDocs_upd:
  "(doDocs ns ds (st\<lparr>docs := a, names := b\<rparr>))\<lparr>docs := c, names := d\<rparr>
     = (doDocs ns ds st)\<lparr>docs := c, names := d\<rparr>"
  by (simp add: doDocs_def Let_def)

lemma doFields_Nil [simp]: "doFields [] st = st"
  by (simp add: doFields_def)

lemma doFields_Cons [simp]:
  "doFields (f # fs) st = doFields fs (doDocs (field_Names f) [field_Doc f] st)"
  by (simp add: doFields_def)

lemma doFields_names [simp]: "names (doFields fs st) = names st"
  by (induction fs arbitrary: st) auto

lemma doFields_docs [simp]: "docs (doFields fs st) = docs st"
  by (induction fs arbitrary: st) auto

lemma recorded_doDocs: "recorded m0 st \<Longrightarrow> recorded m0 (doDocs ns ds st)"
  by (auto simp: recorded_def doDocs_facts split: if_splits)

lemma recorded_doFields: "recorded m0 st \<Longrightarrow> recorded m0 (doFields fs st)"
  by (induction fs arbitrary: st) (auto intro: recorded_doDocs)

lemma recorded_upd [simp]:
  "recorded m0 (st\<lparr>docs := ds\<rparr>) = recorded m0 st"
  "recorded m0 (st\<lparr>names := ns\<rparr>) = recorded m0 st"
  by (simp_all add: recorded_def)

lemma recorded_finish: "recorded m0 st \<Longrightarrow> recorded m0 (fst (finish st ret))"
  by (simp add: finish_def recorded_doDocs)

lemma recorded_fn_facts: "recorded m0 st \<Longrightarrow> recorded m0 (fst (fn_facts k st))"
  by (cases k) (simp_all add: recorded_finish recorded_doFields)

lemma recorded_Inspect:
  "recorded m0 st \<Longrightarrow> recorded m0 (Inspect n st)"
  "recorded m0 st \<Longrightarrow> recorded m0 (InspectList ns st)"
proof (induction n st and ns st rule: Inspect_InspectList.induct)
  case (1 k children st)
  then show ?case
    using recorded_fn_facts [of m0 st k]
    by (cases "fn_facts k st") auto
qed auto

lemma recorded_files:
  "recorded m0 st \<Longrightarrow> recorded m0 (foldl (\<lambda>st f. Inspect (fileNode f) st) st fs)"
  by (induction fs arbitrary: st) (auto intro: recorded_Inspect)

subsection \<open>Fields, specs and the buffer\<close>


lemma inert_Inspect: "inert n \<Longrightarrow> Inspect n st = st"
  by (cases n rule: inert.cases) simp_all

lemma inert_InspectList: "list_all inert ns \<Longrightarrow> InspectList ns st = st"
  by (induction ns arbitrary: st) (auto simp: inert_Inspect)

lemma InspectList_append: "InspectList (ns @ ms) st = InspectList ms (InspectList ns st)"
  by (induction ns arbitrary: st) auto

lemma typeChild_docs: "typeChild n \<Longrightarrow> docs (Inspect n st) = docs st"
  by (cases "(n)" rule: typeChild.cases) (simp_all)

lemma typeChildren_docs: "list_all typeChild cs \<Longrightarrow> docs (InspectList cs st) = docs st"
  by (induction cs arbitrary: st) (auto simp: typeChild_docs)

lemma isSpec_clears: "isSpec s \<Longrightarrow> docs (Inspect s st) = []"
  by (cases s rule: isSpec.cases) (auto simp: finish_def typeChildren_docs)

lemma isSpec_own: "isSpec s \<Longrightarrow> docs st = [] \<Longrightarrow> Inspect s st = ownDocOnly s st"
  by (cases s rule: isSpec.cases) (auto simp: finish_def doDocs_upd)

lemma isSpec_own_clears: "isSpec s \<Longrightarrow> docs (ownDocOnly s st) = []"
  by (cases s rule: isSpec.cases) (auto simp: typeChildren_docs)

lemma inert_own: "inert s \<Longrightarrow> ownDocOnly s st = st"
  by (cases s rule: inert.cases) simp_all

lemma specs_own:
  "list_all (\<lambda>s. isSpec s \<or> inert s) ss \<Longrightarrow> docs st = [] \<Longrightarrow>
   InspectList ss st = foldl (\<lambda>st s. ownDocOnly s st) st ss"
proof (induction ss arbitrary: st)
  case Nil
  then show ?case by simp
next
  case (Cons s ss)
  from Cons.prems have "isSpec s \<or> inert s" by simp
  then have 1: "Inspect s st = ownDocOnly s st"
    using Cons.prems(2) by (auto simp: isSpec_own inert_own inert_Inspect)
  have 2: "docs (ownDocOnly s st) = []"
    using \<open>isSpec s \<or> inert s\<close> Cons.prems(2) by (auto simp: isSpec_own_clears inert_own)
  show ?case using Cons.IH [OF _ 2] Cons.prems 1 by simp
qed

lemma agree_doDocs: "agree A st st' \<Longrightarrow> agree A (doDocs ns ds st) (doDocs ns ds st')"
  by (simp add: agree_def doDocs_facts)

lemma agree_doFields: "agree A st st' \<Longrightarrow> agree A (doFields fs st) (doFields fs st')"
  by (induction fs arbitrary: st st') (auto intro: agree_doDocs)

lemma agree_upd:
  "agree A st st' \<Longrightarrow> agree A (st\<lparr>docs := ds, names := ns\<rparr>) (st'\<lparr>docs := ds, names := ns\<rparr>)"
  by (simp add: agree_def)

lemma agree_finish:
  assumes "agree A st st'"
  shows "agree A (fst (finish st r)) (fst (finish st' r)) \<and> snd (finish st r) = snd (finish st' r)"
proof -
  have d: "docs st = docs st'" and n: "names st = names st'"
    using assms by (simp_all add: agree_def)
  have "agree A (doDocs (names st) (docs st) st) (doDocs (names st) (docs st) st')"
    using assms by (rule agree_doDocs)
  then have "agree A ((doDocs (names st) (docs st) st)\<lparr>docs := [], names := []\<rparr>)
                     ((doDocs (names st) (docs st) st')\<lparr>docs := [], names := []\<rparr>)"
    by (rule agree_upd)
  then show ?thesis using assms d n by (simp add: finish_def)
qed

lemma agree_fn_facts:
  assumes "agree A st st'"
  shows "agree A (fst (fn_facts k st)) (fst (fn_facts k st'))
         \<and> snd (fn_facts k st) = snd (fn_facts k st')"
proof (cases k)
  case (GenDecl tok doc)
  then show ?thesis using assms by (simp add: agree_def)
next
  case (FuncDecl doc name)
  have "agree A (st\<lparr>docs := docs st @ [doc], names := [name]\<rparr>)
                (st'\<lparr>docs := docs st' @ [doc], names := [name]\<rparr>)"
    using assms by (simp add: agree_def)
  then show ?thesis using FuncDecl agree_finish by simp
next
  case (TypeSpec doc name)
  have "agree A (st\<lparr>docs := docs st @ [doc], names := [name]\<rparr>)
                (st'\<lparr>docs := docs st' @ [doc], names := [name]\<rparr>)"
    using assms by (simp add: agree_def)
  then show ?thesis using TypeSpec agree_finish by simp
next
  case (ValueSpec doc ns)
  have "agree A (st\<lparr>docs := docs st @ [doc], names := ns\<rparr>)
                (st'\<lparr>docs := docs st' @ [doc], names := ns\<rparr>)"
    using assms by (simp add: agree_def)
  then show ?thesis using ValueSpec agree_finish by simp
qed (use assms in \<open>simp_all add: agree_doFields\<close>)

lemma agree_Inspect:
  "agree A st st' \<Longrightarrow> agree A (Inspect n st) (Inspect n st')"
  "agree A st st' \<Longrightarrow> agree A (InspectList ns st) (InspectList ns st')"
proof (induction n st and ns st arbitrary: st' and st' rule: Inspect_InspectList.induct)
  case (1 k children st)
  obtain s1 d1 where f1: "fn_facts k st = (s1, d1)" by (cases "fn_facts k st")
  obtain s2 d2 where f2: "fn_facts k st' = (s2, d2)" by (cases "fn_facts k st'")
  from agree_fn_facts [OF "1.prems", of k] f1 f2
  have a: "agree A s1 s2" and d: "d1 = d2" by simp_all
  show ?case
  proof (cases d1)
    case True
    from "1.IH" [OF f1 [symmetric] True a] show ?thesis
      using f1 f2 d True by simp
  next
    case False
    then show ?thesis using f1 f2 d a by simp
  qed
next
  case (2 st)
  then show ?case by simp
next
  case (3 n ns st)
  from "3.IH"(1) [OF "3.prems"] have "agree A (Inspect n st) (Inspect n st')" .
  from "3.IH"(2) [OF this] show ?case by simp
qed

lemma first_spec_agree:
  assumes "s1 = Node (TypeSpec d T) cs \<or> (s1 = Node (ValueSpec d ns) cs \<and> ns \<noteq> [])"
  shows "agree (specNames s1) (Inspect s1 (st\<lparr>docs := docs st @ [gd]\<rparr>))
                              (Inspect s1 (st\<lparr>docs := docs st @ [gd']\<rparr>))"
proof -
  from assms show ?thesis
  proof
    assume s: "s1 = Node (TypeSpec d T) cs"
    have "agree {T} ((doDocs [T] (docs st @ [gd, d]) st)\<lparr>docs := [], names := []\<rparr>)
                    ((doDocs [T] (docs st @ [gd', d]) st)\<lparr>docs := [], names := []\<rparr>)"
      by (simp add: agree_def doDocs_facts)
    from agree_Inspect(2) [OF this, of cs] show ?thesis
      using s by (simp add: finish_def doDocs_upd)
  next
    assume s: "s1 = Node (ValueSpec d ns) cs \<and> ns \<noteq> []"
    have "agree (set ns) ((doDocs ns (docs st @ [gd, d]) st)\<lparr>docs := [], names := []\<rparr>)
                    ((doDocs ns (docs st @ [gd', d]) st)\<lparr>docs := [], names := []\<rparr>)"
      by (simp add: agree_def doDocs_facts)
    then show ?thesis
      using s by (simp add: finish_def doDocs_upd)
  qed
qed

subsection \<open>The walk over the declarations of the files\<close>

lemma files_as_decls:
  "foldl (\<lambda>st f. Inspect (fileNode f) st) st fs = InspectList (concat (map file_Decls fs)) st"
  by (induction fs arbitrary: st) (simp_all add: fileNode_def InspectList_append)

lemma deprecated_Objects:
  "Objects (deprecated pass)
     = facts (InspectList (allDecls pass) \<lparr>names = [], docs = [], facts = ObjectFacts pass\<rparr>)"
  by (simp add: deprecated_def Let_def files_as_decls allDecls_def)






lemma isSpec_not_inert: "isSpec s \<Longrightarrow> \<not> inert s"
  by (cases s rule: isSpec.cases) simp_all








subsection \<open>The example inputs of the extractor\<close>

lemmas text_eval =
  Text_def Split.simps HasPrefix_def nl_def stripTrailingWhitespace_def isWhitespace_def
  ReplaceAll1_def Let_def

lemma example_texts:
  "Text [''Foo does X.'', '''', ''Deprecated: use Bar instead.'']
     = ''Foo does X.'' @ [nl, nl] @ ''Deprecated: use Bar instead.'' @ [nl]"
  "Text [''Deprecated: '', '''', ''Deprecated: later.'']
     = ''Deprecated:'' @ [nl, nl] @ ''Deprecated: later.'' @ [nl]"
  "Split (Text [''New is new.'']) [nl, nl] = [''New is new.'' @ [nl]]"
  "Split (Text [''A.'', '''', ''Deprecated: use'', ''B.'', '''', ''C.'']) [nl, nl]
     = [''A.''] @ (''Deprecated: use'' @ [nl] @ ''B.'') # [''C.'' @ [nl]]"
  by (simp_all add: text_eval)

lemma example_messages:
  "extractDeprecatedMessage [Some [''Deprecated: use New.'']] = ''use New. ''"
  "extractDeprecatedMessage [Some [''Foo does X.'', '''', ''Deprecated: use Bar instead.'']]
     = ''use Bar instead. ''"
  "extractDeprecatedMessage [Some [''New is new.'']] = []"
  "extractDeprecatedMessage [Some [''Deprecated: '', '''', ''Deprecated: later.'']] = ''later. ''"
  "extractDeprecatedMessage [Some [''A.'', '''', ''Deprecated: use'', ''B.'', '''', ''C.'']] = ''use B.''"
  "extractDeprecatedMessage [Some [''Deprecated: use B.'']] = ''use B. ''"
  "extractDeprecatedMessage [Some [''T is a type.''], None] = []"
  "extractDeprecatedMessage [Some [''Deprecated: gone.''], Some [''T is a type.''], None] = ''gone. ''"
  "extractDeprecatedMessage [Some [''Deprecated: use a2.'']] = ''use a2. ''"
  "extractDeprecatedMessage [Some [''Deprecated: group.''], None] = ''group. ''"
  "extractDeprecatedMessage [None] = []"
  by (simp_all add: text_eval)

lemma example_names:
  "fnOld \<noteq> fnNew" "fnNew \<noteq> fnOld" "fnFoo \<noteq> fnNew" "fnNew \<noteq> fnFoo" "fnOld \<noteq> varX" "varX \<noteq> fnOld"
  "typT \<noteq> fldA" "fldA \<noteq> typT" "typT \<noteq> fldB" "fldB \<noteq> typT" "fldA \<noteq> fldB" "fldB \<noteq> fldA"
  "varA \<noteq> varB" "varB \<noteq> varA"
  by (simp_all add: fnOld_def fnNew_def fnFoo_def varX_def typT_def fldA_def fldB_def varA_def
        varB_def)

lemma example_no_facts:
  "depFacts fnOld = None" "depFacts fnNew = None" "depFacts fnFoo = None" "depFacts varX = None"
  "depFacts typT = None" "depFacts fldA = None" "depFacts fldB = None"
  by (simp_all add: depFacts_def fnOld_def fnNew_def fnFoo_def varX_def typT_def fldA_def fldB_def
        symPlain_def symNever_def symNoLonger_def symSince_def)

lemma facts_fileAfter:
  "Objects (deprecated (exPass [fileAfter] v)) fnOld = Some (IsDeprecated ''use New. '')"
  "Objects (deprecated (exPass [fileAfter] v)) fnNew = None"
  "Objects (deprecated (exPass [fileAfter] v)) symPlain = Some (IsDeprecated ''use Other.'')"
  by (simp_all add: deprecated_def exPass_def fileNode_def fileAfter_def declOld_def declVarX_def
        finish_def doDocs_facts example_messages example_names example_no_facts
        del: extractDeprecatedMessage.simps)
    (simp_all add: doDocs_facts text_eval depFacts_def fnOld_def fnNew_def varX_def symPlain_def
        symNever_def symNoLonger_def symSince_def)

lemma facts_fileBefore:
  "Objects (deprecated (exPass [fileBefore] v)) fnOld = Some (IsDeprecated ''use New. '')"
  "Objects (deprecated (exPass [fileBefore] v)) symPlain = Some (IsDeprecated ''use Other.'')"
  by (simp_all add: deprecated_def exPass_def fileNode_def fileBefore_def declOld_def declVarX_def
        finish_def doDocs_facts example_messages example_names example_no_facts
        del: extractDeprecatedMessage.simps)
    (simp_all add: doDocs_facts text_eval depFacts_def fnOld_def fnNew_def varX_def symPlain_def
        symNever_def symNoLonger_def symSince_def)


subsection \<open>The message of a doc comment\<close>




subsection \<open>Non-empty messages\<close>

text \<open>
  Claim C9 as stated fails in its parenthesis. A comment line that is the marker with
  nothing behind it loses its trailing blank in the text of the comment, so the
  paragraph \<^verbatim>\<open>Deprecated:\<close> that it makes does not begin with the marker
  \<^verbatim>\<open>Deprecated: \<close> and the extractor goes on to the next paragraph: for
  \<^verbatim>\<open>// Deprecated: \<close>, an empty comment line and \<^verbatim>\<open>// Deprecated: later.\<close> on the
  function \<^verbatim>\<open>Old\<close> the run records the fact with the message \<^verbatim>\<open>later. \<close>.
\<close>

theorem marker_alone_counterexample:
  "Text [''Deprecated: '', '''', ''Deprecated: later.'']
     = ''Deprecated:'' @ [nl, nl] @ ''Deprecated: later.'' @ [nl]
   \<and> Objects (deprecated (exPass [fileMarkerAlone] None)) fnOld
       = Some (IsDeprecated ''later. '')"
  by (simp add: deprecated_Objects allDecls_def exPass_def fileMarkerAlone_def finish_def
        doDocs_facts example_messages example_texts del: extractDeprecatedMessage.simps)

text \<open>
  Claim C9, amended. Every fact in the result of the extractor, for an object or for a
  package, carries a non-empty message, unless it is a fact of a dependency that the
  pass already held. And the message that the extractor takes from comment groups is
  empty only when no paragraph of any of them begins with the marker: a paragraph that
  begins with the marker always has text behind it, so none keeps a later
  paragraph or a later comment group from giving the message.
\<close>

theorem facts_carry_message:
  "(Objects (deprecated pass) x = Some d \<longrightarrow> Msg d \<noteq> [] \<or> ObjectFacts pass x = Some d)
   \<and> (Packages (deprecated pass) p = Some d' \<longrightarrow> Msg d' \<noteq> [] \<or> PackageFacts pass p = Some d')
   \<and> (extractDeprecatedMessage ds = [] \<and> Some doc \<in> set ds
        \<and> part \<in> set (Split (Text doc) [nl, nl]) \<longrightarrow> \<not> HasPrefix part ''Deprecated: '')
   \<and> (part \<in> set (Split (Text doc) [nl, nl]) \<and> HasPrefix part ''Deprecated: '' \<longrightarrow>
        drop (length ''Deprecated: '') part \<noteq> [])"
proof (intro conjI impI)
  assume a: "Objects (deprecated pass) x = Some d"
  have "recorded (ObjectFacts pass) \<lparr>names = [], docs = [], facts = ObjectFacts pass\<rparr>"
    by (simp add: recorded_def)
  then have "recorded (ObjectFacts pass)
     (foldl (\<lambda>st f. Inspect (fileNode f) st)
        \<lparr>names = [], docs = [], facts = ObjectFacts pass\<rparr> (Files pass))"
    by (rule recorded_files)
  with a show "Msg d \<noteq> [] \<or> ObjectFacts pass x = Some d"
    by (simp add: deprecated_def Let_def recorded_def)
next
  assume "Packages (deprecated pass) p = Some d'"
  then show "Msg d' \<noteq> [] \<or> PackageFacts pass p = Some d'"
    by (auto simp: deprecated_def Let_def split: if_splits)
next
  assume a: "extractDeprecatedMessage ds = [] \<and> Some doc \<in> set ds
        \<and> part \<in> set (Split (Text doc) [nl, nl])"
  then have "firstDeprecated (Split (Text doc) [nl, nl]) = None"
    using extract_empty by blast
  then show "\<not> HasPrefix part ''Deprecated: ''"
    using a by (simp add: firstDeprecated_None)
next
  assume "part \<in> set (Split (Text doc) [nl, nl]) \<and> HasPrefix part ''Deprecated: ''"
  then show "drop (length ''Deprecated: '') part \<noteq> []"
    using Text_paragraph_not_marker by blast
qed

theorem facts_carry_message_witness:
  "Objects (deprecated (exPass [fileAfter] None)) fnOld = Some (IsDeprecated ''use New. '')
   \<and> ObjectFacts (exPass [fileAfter] None) fnOld = None
   \<and> Msg (IsDeprecated ''use New. '') \<noteq> []
   \<and> Packages (deprecated (exPass [AstFile (Some [''Deprecated: use a2.'']) []] None)) pkgA
       = Some (IsDeprecated ''use a2. '')
   \<and> PackageFacts (exPass [AstFile (Some [''Deprecated: use a2.'']) []] None) pkgA = None
   \<and> Msg (IsDeprecated ''use a2. '') \<noteq> []
   \<and> extractDeprecatedMessage [None, Some [''New is new.'']] = []
   \<and> ''New is new.'' @ [nl] \<in> set (Split (Text [''New is new.'']) [nl, nl])
   \<and> \<not> HasPrefix (''New is new.'' @ [nl]) ''Deprecated: ''
   \<and> ''Deprecated: later.'' @ [nl]
        \<in> set (Split (Text [''Deprecated: '', '''', ''Deprecated: later.'']) [nl, nl])
   \<and> HasPrefix (''Deprecated: later.'' @ [nl]) ''Deprecated: ''
   \<and> drop (length ''Deprecated: '') (''Deprecated: later.'' @ [nl]) \<noteq> []"
proof -
  have o1: "Objects (deprecated (exPass [fileAfter] None)) fnOld = Some (IsDeprecated ''use New. '')"
    by (rule facts_fileAfter)
  have o2: "ObjectFacts (exPass [fileAfter] None) fnOld = None"
    by (simp add: exPass_def example_no_facts)
  from facts_carry_message [THEN conjunct1, THEN mp, OF o1] o2
  have o3: "Msg (IsDeprecated ''use New. '') \<noteq> []" by simp
  have p1: "Packages (deprecated (exPass [AstFile (Some [''Deprecated: use a2.'']) []] None)) pkgA
       = Some (IsDeprecated ''use a2. '')"
    by (simp add: deprecated_def exPass_def Let_def example_messages
          del: extractDeprecatedMessage.simps)
  have p2: "PackageFacts (exPass [AstFile (Some [''Deprecated: use a2.'']) []] None) pkgA = None"
    by (simp add: exPass_def depPackageFacts_def pkgA_def pkgProto_def pkgDep_def)
  from facts_carry_message [THEN conjunct2, THEN conjunct1, THEN mp, OF p1] p2
  have p3: "Msg (IsDeprecated ''use a2. '') \<noteq> []" by simp
  have e1: "extractDeprecatedMessage [None, Some [''New is new.'']] = []"
    by (simp add: text_eval)
  have e2: "Some [''New is new.''] \<in> set [None, Some [''New is new.'']]" by simp
  have e3: "''New is new.'' @ [nl] \<in> set (Split (Text [''New is new.'']) [nl, nl])"
    by (simp add: example_texts)
  from facts_carry_message [THEN conjunct2, THEN conjunct2, THEN conjunct1, THEN mp,
         OF conjI [OF e1 conjI [OF e2 e3]]]
  have e4: "\<not> HasPrefix (''New is new.'' @ [nl]) ''Deprecated: ''" .
  have m1: "''Deprecated: later.'' @ [nl]
        \<in> set (Split (Text [''Deprecated: '', '''', ''Deprecated: later.'']) [nl, nl])"
    by (simp add: text_eval)
  have m2: "HasPrefix (''Deprecated: later.'' @ [nl]) ''Deprecated: ''"
    by (simp add: HasPrefix_def)
  from facts_carry_message [THEN conjunct2, THEN conjunct2, THEN conjunct2, THEN mp,
         OF conjI [OF m1 m2]]
  have m3: "drop (length ''Deprecated: '') (''Deprecated: later.'' @ [nl]) \<noteq> []" .
  show ?thesis using o1 o2 o3 p1 p2 p3 e1 e3 e4 m1 m2 m3 by blast
qed

subsection \<open>Struct fields\<close>

text \<open>
  Claim C8, on the code. The buffer \<^verbatim>\<open>docs\<close> is cleared when a spec or a function
  declaration has used it, and a type, const or var declaration without a spec has
  neither: the doc comment of \<^verbatim>\<open>var ()\<close> stays in the buffer and is taken for a doc
  comment of the declaration that follows. After \<^verbatim>\<open>// Deprecated: gone.\<close>
  \<^verbatim>\<open>var ()\<close>, the struct type \<^verbatim>\<open>T\<close> with the doc comment \<^verbatim>\<open>// T is a type.\<close> and a
  deprecated field \<^verbatim>\<open>A\<close> has the fact \<^verbatim>\<open>gone. \<close> bound to its own symbol, next to the
  fact of the field. In the file with the struct type alone the fact is bound to the
  field only.
\<close>

theorem struct_type_after_empty_declaration:
  "Objects (deprecated (exPass [fileStructAfterEmpty] None)) typT = Some (IsDeprecated ''gone. '')
   \<and> Objects (deprecated (exPass [fileStructAfterEmpty] None)) fldA = Some (IsDeprecated ''use B. '')
   \<and> Objects (deprecated (exPass [fileStructAfterEmpty] None)) fldB = None
   \<and> Objects (deprecated (exPass [fileStruct] None)) typT = None
   \<and> Objects (deprecated (exPass [fileStruct] None)) fldA = Some (IsDeprecated ''use B. '')
   \<and> Objects (deprecated (exPass [fileStruct] None)) fldB = None"
  by (simp add: deprecated_Objects allDecls_def exPass_def fileStructAfterEmpty_def fileStruct_def
        declEmptyVar_def declT_def structFields_def finish_def doDocs_facts example_messages
        example_names example_no_facts del: extractDeprecatedMessage.simps)

subsection \<open>Grouped declarations\<close>

text \<open>
  Claim C10. Take a grouped type, const or var declaration whose children are, after
  its comment, the specs. The doc comment of the group is in the buffer for the first
  spec only: every later spec is handled as \<^const>\<open>ownDocOnly\<close> says, from its own doc
  comment and with the buffers cleared afterwards. Hence the fact of every object that
  the first spec does not name is the same whatever the doc comment of the group is.
\<close>

theorem group_doc_first_spec_only:
  "((tok = tok_TYPE \<or> tok = tok_CONST \<or> tok = tok_VAR) \<and> list_all inert pre \<and> isSpec s1
      \<and> list_all (\<lambda>s. isSpec s \<or> inert s) rest \<longrightarrow>
      Inspect (Node (GenDecl tok gd) (pre @ s1 # rest)) st
        = foldl (\<lambda>st s. ownDocOnly s st) (Inspect s1 (st\<lparr>docs := docs st @ [gd]\<rparr>)) rest)
   \<and> ((tok = tok_TYPE \<or> tok = tok_CONST \<or> tok = tok_VAR) \<and> list_all inert pre
       \<and> (s1 = Node (TypeSpec d T) cs \<or> (s1 = Node (ValueSpec d ns) cs \<and> ns \<noteq> []))
       \<and> x \<notin> specNames s1 \<longrightarrow>
      facts (Inspect (Node (GenDecl tok gd) (pre @ s1 # rest)) st) x
        = facts (Inspect (Node (GenDecl tok gd') (pre @ s1 # rest)) st) x)"
proof (intro conjI impI)
  assume a: "(tok = tok_TYPE \<or> tok = tok_CONST \<or> tok = tok_VAR) \<and> list_all inert pre \<and> isSpec s1
      \<and> list_all (\<lambda>s. isSpec s \<or> inert s) rest"
  then have c: "docs (Inspect s1 (st\<lparr>docs := docs st @ [gd]\<rparr>)) = []"
    by (simp add: isSpec_clears)
  from a have "Inspect (Node (GenDecl tok gd) (pre @ s1 # rest)) st
     = InspectList rest (Inspect s1 (st\<lparr>docs := docs st @ [gd]\<rparr>))"
    by (auto simp: InspectList_append inert_InspectList)
  also have "\<dots> = foldl (\<lambda>st s. ownDocOnly s st) (Inspect s1 (st\<lparr>docs := docs st @ [gd]\<rparr>)) rest"
    using a c by (simp add: specs_own)
  finally show "Inspect (Node (GenDecl tok gd) (pre @ s1 # rest)) st
        = foldl (\<lambda>st s. ownDocOnly s st) (Inspect s1 (st\<lparr>docs := docs st @ [gd]\<rparr>)) rest" .
next
  assume a: "(tok = tok_TYPE \<or> tok = tok_CONST \<or> tok = tok_VAR) \<and> list_all inert pre
       \<and> (s1 = Node (TypeSpec d T) cs \<or> (s1 = Node (ValueSpec d ns) cs \<and> ns \<noteq> []))
       \<and> x \<notin> specNames s1"
  then have "agree (specNames s1) (Inspect s1 (st\<lparr>docs := docs st @ [gd]\<rparr>))
                              (Inspect s1 (st\<lparr>docs := docs st @ [gd']\<rparr>))"
    using first_spec_agree by blast
  from agree_Inspect(2) [OF this, of rest]
  have "agree (specNames s1) (InspectList rest (Inspect s1 (st\<lparr>docs := docs st @ [gd]\<rparr>)))
                             (InspectList rest (Inspect s1 (st\<lparr>docs := docs st @ [gd']\<rparr>)))" .
  moreover have "\<And>g. Inspect (Node (GenDecl tok g) (pre @ s1 # rest)) st
     = InspectList rest (Inspect s1 (st\<lparr>docs := docs st @ [g]\<rparr>))"
    using a by (auto simp: InspectList_append inert_InspectList)
  ultimately show "facts (Inspect (Node (GenDecl tok gd) (pre @ s1 # rest)) st) x
        = facts (Inspect (Node (GenDecl tok gd') (pre @ s1 # rest)) st) x"
    using a by (simp add: agree_def)
qed

theorem group_doc_first_spec_only_witness:
  "list_all inert [Node OtherNode []]
   \<and> isSpec (Node (ValueSpec None [varA]) [])
   \<and> list_all (\<lambda>s. isSpec s \<or> inert s) [Node (ValueSpec None [varB]) []]
   \<and> facts (Inspect (Node (GenDecl tok_VAR (Some [''Deprecated: group.'']))
               ([Node OtherNode []] @ Node (ValueSpec None [varA]) []
                  # [Node (ValueSpec None [varB]) []])) st0) varA
       = Some (IsDeprecated ''group. '')
   \<and> facts (Inspect (Node (GenDecl tok_VAR (Some [''Deprecated: group.'']))
               ([Node OtherNode []] @ Node (ValueSpec None [varA]) []
                  # [Node (ValueSpec None [varB]) []])) st0) varB
       = None
   \<and> varB \<notin> specNames (Node (ValueSpec None [varA]) [])
   \<and> facts (Inspect (Node (GenDecl tok_VAR (Some [''Deprecated: group.'']))
               ([Node OtherNode []] @ Node (ValueSpec None [varA]) []
                  # [Node (ValueSpec None [varB]) []])) st0) varB
       = facts (Inspect (Node (GenDecl tok_VAR None)
               ([Node OtherNode []] @ Node (ValueSpec None [varA]) []
                  # [Node (ValueSpec None [varB]) []])) st0) varB"
proof -
  have t: "tok_VAR = tok_TYPE \<or> tok_VAR = tok_CONST \<or> tok_VAR = tok_VAR" by simp
  have p: "list_all inert [Node OtherNode []]" by simp
  have h1: "isSpec (Node (ValueSpec None [varA]) [])" by simp
  have h2: "list_all (\<lambda>s. isSpec s \<or> inert s) [Node (ValueSpec None [varB]) []]" by simp
  have e: "Inspect (Node (GenDecl tok_VAR (Some [''Deprecated: group.'']))
               ([Node OtherNode []] @ Node (ValueSpec None [varA]) []
                  # [Node (ValueSpec None [varB]) []])) st0
     = foldl (\<lambda>st s. ownDocOnly s st)
         (Inspect (Node (ValueSpec None [varA]) [])
            (st0\<lparr>docs := docs st0 @ [Some [''Deprecated: group.'']]\<rparr>))
         [Node (ValueSpec None [varB]) []]"
    by (rule group_doc_first_spec_only [THEN conjunct1, THEN mp,
               OF conjI [OF t conjI [OF p conjI [OF h1 h2]]]])
  have c1: "facts (Inspect (Node (GenDecl tok_VAR (Some [''Deprecated: group.'']))
               ([Node OtherNode []] @ Node (ValueSpec None [varA]) []
                  # [Node (ValueSpec None [varB]) []])) st0) varA
       = Some (IsDeprecated ''group. '')"
    unfolding e
    by (simp add: st0_def finish_def doDocs_facts text_eval example_names)
  have c2: "facts (Inspect (Node (GenDecl tok_VAR (Some [''Deprecated: group.'']))
               ([Node OtherNode []] @ Node (ValueSpec None [varA]) []
                  # [Node (ValueSpec None [varB]) []])) st0) varB
       = None"
    unfolding e
    by (simp add: st0_def finish_def doDocs_facts text_eval example_names)
  have h3: "Node (ValueSpec None [varA]) [] = Node (TypeSpec None varA) []
            \<or> (Node (ValueSpec None [varA]) [] = Node (ValueSpec None [varA]) [] \<and> [varA] \<noteq> [])"
    by simp
  have h4: "varB \<notin> specNames (Node (ValueSpec None [varA]) [])"
    by (simp add: varA_def varB_def)
  have c3: "facts (Inspect (Node (GenDecl tok_VAR (Some [''Deprecated: group.'']))
               ([Node OtherNode []] @ Node (ValueSpec None [varA]) []
                  # [Node (ValueSpec None [varB]) []])) st0) varB
       = facts (Inspect (Node (GenDecl tok_VAR None)
               ([Node OtherNode []] @ Node (ValueSpec None [varA]) []
                  # [Node (ValueSpec None [varB]) []])) st0) varB"
    by (rule group_doc_first_spec_only [THEN conjunct2, THEN mp,
               OF conjI [OF t conjI [OF p conjI [OF h3 h4]]]])
  show ?thesis using p h1 h2 c1 c2 h4 c3 by blast
qed

section \<open>Properties of the usage analyzer\<close>

subsection \<open>The walk\<close>










subsection \<open>Runs that do not panic\<close>













subsection \<open>The diagnostics of a run\<close>

























subsection \<open>The example inputs\<close>

lemma example_objects [simp]:
  "obj_Pkg fnOld = Some pkgA" "obj_Pkg fnNew = Some pkgA" "obj_Pkg varX = Some pkgA"
  "obj_Pkg symPlain = Some pkgDep" "obj_Pkg symNever = Some pkgDep"
  "obj_Pkg symNoLonger = Some pkgDep" "obj_Pkg symSince = Some pkgDep"
  by (simp_all add: fnOld_def fnNew_def varX_def symPlain_def symNever_def symNoLonger_def
        symSince_def)

lemma example_packages [simp]:
  "pkgA \<noteq> pkgDep" "pkgDep \<noteq> pkgA" "pkgDepTest \<noteq> pkgDep"
  "Path pkgA = ''example.com/a''" "Path pkgDep = ''example.com/dep''"
  "Path pkgDepTest = ''example.com/dep_test''"
  by (simp_all add: pkgA_def pkgDep_def pkgDepTest_def)

lemma exPass_simps [simp]:
  "Files (withFacts (exPass files v)) = files"
  "pass_Pkg (withFacts (exPass files v)) = pkgA"
  "Flag_go (withFacts (exPass files v)) = v"
  "ResultOf_Generated (withFacts (exPass files v)) = [''a.pb.go'' \<mapsto> ProtocGenGo]"
  "ResultOf_Deprecated (withFacts (exPass files v)) = deprecated (exPass files v)"
  by (simp_all add: withFacts_def exPass_def)

lemma facts_noFiles [simp]:
  "deprecated (exPass [] v) = \<lparr>Objects = depFacts, Packages = depPackageFacts\<rparr>"
  by (simp add: deprecated_def exPass_def)

lemma depFacts_simps [simp]:
  "depFacts symPlain = Some (IsDeprecated ''use Other.'')"
  "depFacts symNever = Some (IsDeprecated ''unsafe.'')"
  "depFacts symNoLonger = Some (IsDeprecated ''no use.'')"
  "depFacts symSince = Some (IsDeprecated ''use Newer.'')"
  "depFacts fnOld = None"
  by (simp_all add: depFacts_def fnOld_def symPlain_def symNever_def symNoLonger_def symSince_def)

lemma depPackageFacts_simps [simp]:
  "depPackageFacts pkgProto = Some (IsDeprecated ''use google.golang.org/protobuf.'')"
  "depPackageFacts pkgDep = Some (IsDeprecated ''use dep2.'')"
  by (simp_all add: depPackageFacts_def pkgProto_def pkgDep_def)

lemma K0_simps [simp]:
  "DeprecatedNeverUse K0 = - 1" "DeprecatedUseNoLonger K0 = - 2"
  "StdlibDeprecations K0 ''example.com/dep.Sym'' = None"
  "StdlibDeprecations K0 ''example.com/dep.Never''
     = Some \<lparr>DeprecatedSince = 5, AlternativeAvailableSince = - 1\<rparr>"
  "StdlibDeprecations K0 ''example.com/dep.NoLonger''
     = Some \<lparr>DeprecatedSince = 4, AlternativeAvailableSince = - 2\<rparr>"
  "StdlibDeprecations K0 ''example.com/dep.Since''
     = Some \<lparr>DeprecatedSince = 6, AlternativeAvailableSince = 3\<rparr>"
  by (simp_all add: K0_def)

lemma depSel_simps [simp]:
  "sel_Obj (depSel pos obj nm) = obj" "sel_Pos (depSel pos obj nm) = pos"
  "sel_Render (depSel pos obj nm) = ''dep.'' @ nm"
  "SelectorName (depSel pos obj nm) = Inr (''example.com/dep.'' @ nm)"
  by (simp_all add: depSel_def SelectorName_def)

subsection \<open>Member accesses\<close>

text \<open>
  Claim C4. A member access that resolves to a symbol of the package under analysis, or
  of the package whose path with \<^verbatim>\<open>_test\<close> appended is the path of the package under
  analysis, leaves the state as it is: no diagnostic, whatever facts there are.
\<close>

theorem no_self_flagging:
  "obj_Pkg (sel_Obj sel) = Some opkg
   \<and> (pass_Pkg pass = opkg \<or> Path opkg @ ''_test'' = Path (pass_Pkg pass)) \<longrightarrow>
     checkSelector K pass sel s = Inr s
     \<and> (\<exists>s'. fn K pass (SelectorExprN sel) True s = Inr (s', True) \<and> diags s' = diags s)"
  by (auto simp: checkSelector_def fn_def Let_def)

theorem no_self_flagging_witness:
  "obj_Pkg (sel_Obj (depSel 100 fnOld ''Old'')) = Some pkgA
   \<and> pass_Pkg (withFacts (exPass [fileAfter] None)) = pkgA
   \<and> Objects (ResultOf_Deprecated (withFacts (exPass [fileAfter] None))) fnOld
       = Some (IsDeprecated ''use New. '')
   \<and> checkSelector K0 (withFacts (exPass [fileAfter] None)) (depSel 100 fnOld ''Old'') w1 = Inr w1
   \<and> obj_Pkg (sel_Obj (depSel 100 symPlain ''Sym'')) = Some pkgDep
   \<and> Path pkgDep @ ''_test'' = Path (pass_Pkg ((withFacts (exPass [] None))\<lparr>pass_Pkg := pkgDepTest\<rparr>))
   \<and> Objects (ResultOf_Deprecated ((withFacts (exPass [] None))\<lparr>pass_Pkg := pkgDepTest\<rparr>)) symPlain
       = Some (IsDeprecated ''use Other.'')
   \<and> checkSelector K0 ((withFacts (exPass [] None))\<lparr>pass_Pkg := pkgDepTest\<rparr>)
        (depSel 100 symPlain ''Sym'') w1 = Inr w1"
proof -
  have a1: "obj_Pkg (sel_Obj (depSel 100 fnOld ''Old'')) = Some pkgA" by simp
  have a2: "pass_Pkg (withFacts (exPass [fileAfter] None)) = pkgA" by simp
  have a3: "Objects (ResultOf_Deprecated (withFacts (exPass [fileAfter] None))) fnOld
       = Some (IsDeprecated ''use New. '')"
    by (simp add: facts_fileAfter)
  from no_self_flagging [THEN mp, OF conjI [OF a1 disjI1 [OF a2]], THEN conjunct1]
  have a4: "checkSelector K0 (withFacts (exPass [fileAfter] None)) (depSel 100 fnOld ''Old'') w1
              = Inr w1" .
  have b1: "obj_Pkg (sel_Obj (depSel 100 symPlain ''Sym'')) = Some pkgDep" by simp
  have b2: "Path pkgDep @ ''_test''
              = Path (pass_Pkg ((withFacts (exPass [] None))\<lparr>pass_Pkg := pkgDepTest\<rparr>))"
    by simp
  have b3: "Objects (ResultOf_Deprecated ((withFacts (exPass [] None))\<lparr>pass_Pkg := pkgDepTest\<rparr>))
              symPlain = Some (IsDeprecated ''use Other.'')"
    by simp
  from no_self_flagging [THEN mp, OF conjI [OF b1 disjI2 [OF b2]], THEN conjunct1]
  have b4: "checkSelector K0 ((withFacts (exPass [] None))\<lparr>pass_Pkg := pkgDepTest\<rparr>)
        (depSel 100 symPlain ''Sym'') w1 = Inr w1" .
  show ?thesis using a1 a2 a3 a4 b1 b2 b3 b4 by blast
qed

text \<open>
  Claim C1. Take a member access to a symbol of another package that has a deprecation
  fact, an analysis with a configured target version \<open>v\<close> that is not negative, and the
  two sentinels of the table negative and distinct, as they are in the library. Then
  the access is eligible when its name has no entry in the table; with an entry marked
  never-use it is eligible for every \<open>v\<close>; with an entry marked use-no-longer it is
  eligible exactly when \<open>v\<close> is at least the version of the deprecation; with an entry
  that gives the version of an alternative it is eligible exactly when \<open>v\<close> is at least
  that version. In no case the check fails.
\<close>

theorem version_policy:
  assumes "obj_Pkg (sel_Obj sel) = Some opkg"
    and "pass_Pkg pass \<noteq> opkg"
    and "Path opkg @ ''_test'' \<noteq> Path (pass_Pkg pass)"
    and "Objects (ResultOf_Deprecated pass) (sel_Obj sel) = Some depr"
    and "SelectorName sel = Inr name"
    and "Flag_go pass = Some v"
    and "0 \<le> v"
    and "DeprecatedNeverUse K < 0"
    and "DeprecatedUseNoLonger K < 0"
    and "DeprecatedNeverUse K \<noteq> DeprecatedUseNoLonger K"
  shows "(StdlibDeprecations K name = None \<longrightarrow> eligibility K pass sel = Inr True)
    \<and> (StdlibDeprecations K name = Some std \<longrightarrow>
         (AlternativeAvailableSince std = DeprecatedNeverUse K \<longrightarrow>
            eligibility K pass sel = Inr True)
       \<and> (AlternativeAvailableSince std = DeprecatedUseNoLonger K \<longrightarrow>
            eligibility K pass sel = Inr (DeprecatedSince std \<le> v))
       \<and> (0 \<le> AlternativeAvailableSince std \<longrightarrow>
            eligibility K pass sel = Inr (AlternativeAvailableSince std \<le> v)))"
  using assms
  unfolding eligibility_def selectorReports_def checkSelector_def Let_def Report_def
    versionSwitch_def IsGoVersion_def
  by (auto split: option.splits sum.splits bool.splits)

theorem version_policy_witness:
  "eligibility K0 (withFacts (exPass [] (Some 0))) (depSel 100 symPlain ''Sym'') = Inr True
   \<and> eligibility K0 (withFacts (exPass [] (Some 0))) (depSel 101 symNever ''Never'') = Inr True
   \<and> eligibility K0 (withFacts (exPass [] (Some 4))) (depSel 102 symNoLonger ''NoLonger'') = Inr True
   \<and> eligibility K0 (withFacts (exPass [] (Some 2))) (depSel 102 symNoLonger ''NoLonger'') = Inr False
   \<and> eligibility K0 (withFacts (exPass [] (Some 4))) (depSel 103 symSince ''Since'') = Inr True
   \<and> eligibility K0 (withFacts (exPass [] (Some 2))) (depSel 103 symSince ''Since'') = Inr False"
proof -
  have c1: "eligibility K0 (withFacts (exPass [] (Some 0))) (depSel 100 symPlain ''Sym'') = Inr True"
    using version_policy [where sel = "depSel 100 symPlain ''Sym''" and opkg = pkgDep
        and pass = "withFacts (exPass [] (Some 0))" and depr = "IsDeprecated ''use Other.''"
        and name = "''example.com/dep.Sym''" and v = 0 and K = K0]
    by simp
  have c2: "eligibility K0 (withFacts (exPass [] (Some 0))) (depSel 101 symNever ''Never'') = Inr True"
    using version_policy [where sel = "depSel 101 symNever ''Never''" and opkg = pkgDep
        and pass = "withFacts (exPass [] (Some 0))" and depr = "IsDeprecated ''unsafe.''"
        and name = "''example.com/dep.Never''" and v = 0 and K = K0
        and std = "\<lparr>DeprecatedSince = 5, AlternativeAvailableSince = - 1\<rparr>"]
    by simp
  have c3: "eligibility K0 (withFacts (exPass [] (Some 4))) (depSel 102 symNoLonger ''NoLonger'')
              = Inr True"
    using version_policy [where sel = "depSel 102 symNoLonger ''NoLonger''" and opkg = pkgDep
        and pass = "withFacts (exPass [] (Some 4))" and depr = "IsDeprecated ''no use.''"
        and name = "''example.com/dep.NoLonger''" and v = 4 and K = K0
        and std = "\<lparr>DeprecatedSince = 4, AlternativeAvailableSince = - 2\<rparr>"]
    by simp
  have c4: "eligibility K0 (withFacts (exPass [] (Some 2))) (depSel 102 symNoLonger ''NoLonger'')
              = Inr False"
    using version_policy [where sel = "depSel 102 symNoLonger ''NoLonger''" and opkg = pkgDep
        and pass = "withFacts (exPass [] (Some 2))" and depr = "IsDeprecated ''no use.''"
        and name = "''example.com/dep.NoLonger''" and v = 2 and K = K0
        and std = "\<lparr>DeprecatedSince = 4, AlternativeAvailableSince = - 2\<rparr>"]
    by simp
  have c5: "eligibility K0 (withFacts (exPass [] (Some 4))) (depSel 103 symSince ''Since'') = Inr True"
    using version_policy [where sel = "depSel 103 symSince ''Since''" and opkg = pkgDep
        and pass = "withFacts (exPass [] (Some 4))" and depr = "IsDeprecated ''use Newer.''"
        and name = "''example.com/dep.Since''" and v = 4 and K = K0
        and std = "\<lparr>DeprecatedSince = 6, AlternativeAvailableSince = 3\<rparr>"]
    by simp
  have c6: "eligibility K0 (withFacts (exPass [] (Some 2))) (depSel 103 symSince ''Since'') = Inr False"
    using version_policy [where sel = "depSel 103 symSince ''Since''" and opkg = pkgDep
        and pass = "withFacts (exPass [] (Some 2))" and depr = "IsDeprecated ''use Newer.''"
        and name = "''example.com/dep.Since''" and v = 2 and K = K0
        and std = "\<lparr>DeprecatedSince = 6, AlternativeAvailableSince = 3\<rparr>"]
    by simp
  show ?thesis using c1 c2 c3 c4 c5 c6 by blast
qed

text \<open>
  Without a version flag on the analyzer every member access whose name has an entry in
  the table ends in the panic of \<^verbatim>\<open>IsGoVersion\<close>, the never-use entries included: the
  test after the switch asks for the version again.
\<close>

lemma no_version_flag_panics:
  assumes "obj_Pkg (sel_Obj sel) = Some opkg"
    and "pass_Pkg pass \<noteq> opkg"
    and "Path opkg @ ''_test'' \<noteq> Path (pass_Pkg pass)"
    and "Objects (ResultOf_Deprecated pass) (sel_Obj sel) = Some depr"
    and "SelectorName sel = Inr name"
    and "Flag_go pass = None"
    and "StdlibDeprecations K name = Some std"
    and "AlternativeAvailableSince std = DeprecatedNeverUse K
         \<or> AlternativeAvailableSince std = DeprecatedUseNoLonger K
         \<or> 0 \<le> AlternativeAvailableSince std"
  shows "eligibility K pass sel = Inl (Panic NoVersionFlag)"
  using assms
  unfolding eligibility_def selectorReports_def checkSelector_def Let_def Report_def
    versionSwitch_def IsGoVersion_def
  by (auto split: option.splits sum.splits bool.splits)

subsection \<open>Imports\<close>






subsection \<open>The enclosing function\<close>




text \<open>
  Claim C6, on the code. The variable \<^verbatim>\<open>tfn\<close> is reset where \<^verbatim>\<open>stack\<close> becomes 1, and
  that is at the file node alone: the declarations of a file are at depth 2. After
  \<^verbatim>\<open>// Deprecated: use New.\<close> \<^verbatim>\<open>func Old() {}\<close>, the package-level
  \<^verbatim>\<open>var X = dep.Sym\<close> of the same file is still taken to be inside \<^verbatim>\<open>Old\<close>, and the
  use of the deprecated \<^verbatim>\<open>dep.Sym\<close> is not reported; with the two declarations in the
  other order it is. The facts are those the extractor finds in the same file.
\<close>

theorem toplevel_after_deprecated_function:
  "checkDeprecated K0 (withFacts (exPass [fileAfter] None)) = Inr []
   \<and> checkDeprecated K0 (withFacts (exPass [fileBefore] None))
       = Inr [\<lparr>diag_Pos = 100, diag_Message = ''dep.Sym is deprecated: use Other.''\<rparr>]"
proof
  show "checkDeprecated K0 (withFacts (exPass [fileAfter] None)) = Inr []"
    by (simp add: checkDeprecated_def fileNode_def fileAfter_def declOld_def declVarX_def
          fn_def Let_def checkSelector_def
          facts_fileAfter [unfolded fileAfter_def declOld_def declVarX_def])
  show "checkDeprecated K0 (withFacts (exPass [fileBefore] None))
       = Inr [\<lparr>diag_Pos = 100, diag_Message = ''dep.Sym is deprecated: use Other.''\<rparr>]"
    by (simp add: checkDeprecated_def fileNode_def fileBefore_def declOld_def declVarX_def
          fn_def Let_def checkSelector_def Report_def deprecationMessage_def
          facts_fileBefore [unfolded fileBefore_def declOld_def declVarX_def])
qed

subsection \<open>Failure\<close>




end
